theory Spec2Isabelle
  imports Complex_Main
begin

section \<open>Transaction viewer (Day 2/view\_transactions.py)\<close>

text \<open>
  The loader turns every amount into a number (\<open>pd.to_numeric(...).fillna(0)\<close>) and the
  date column into timestamps, so a loaded row has a timestamp, a text and three numbers.
  Numbers are modelled as exact rationals: rounding of binary floating point is outside
  this development.

  A calendar day is a year, a month and a day, compared the way Python's
  \<open>datetime.date\<close> compares them (lexicographically). A timestamp is a calendar day
  and the seconds elapsed within it; \<open>.dt.date\<close> keeps the day.
\<close>

record date =
  year :: nat
  month :: nat
  day :: nat

record timestamp =
  ts_date :: date
  ts_seconds :: nat

definition date_lt :: "date \<Rightarrow> date \<Rightarrow> bool" where
  "date_lt a b \<longleftrightarrow>
     year a < year b \<or>
     (year a = year b \<and> (month a < month b \<or> (month a = month b \<and> day a < day b)))"

definition date_le :: "date \<Rightarrow> date \<Rightarrow> bool" where
  "date_le a b \<longleftrightarrow>
     year a < year b \<or>
     (year a = year b \<and> (month a < month b \<or> (month a = month b \<and> day a \<le> day b)))"

definition date_ge :: "date \<Rightarrow> date \<Rightarrow> bool" where
  "date_ge a b \<longleftrightarrow> date_le b a"

definition date_gt :: "date \<Rightarrow> date \<Rightarrow> bool" where
  "date_gt a b \<longleftrightarrow> date_lt b a"

definition dt_date :: "timestamp \<Rightarrow> date" where
  "dt_date t = ts_date t"

record transaction =
  transaction_date :: timestamp
  description :: string
  debit_amount :: rat
  credit_amount :: rat
  balance :: rat

text \<open>
  The sidebar: two date inputs, two select boxes with fixed options and up to two number
  inputs. \<open>amount1\<close> and \<open>amount2\<close> are the values the number inputs hold when the
  filter runs.
\<close>

datatype amount_type = All_Types | Credit | Debit

datatype filter_condition = Any_Amount | Greater_Than | Less_Than | Between

record criteria =
  start_date :: date
  end_date :: date
  amount_type :: amount_type
  filter_condition :: filter_condition
  amount1 :: rat
  amount2 :: rat

text \<open>
  \<open>target_column\<close> starts as the empty string and names an amount column for Credit
  and Debit. The empty string is falsy in the test \<open>if target_column and ...\<close>; here it
  is \<open>None\<close>, and a column name is the selector of that column.
\<close>

definition target_column :: "amount_type \<Rightarrow> (transaction \<Rightarrow> rat) option" where
  "target_column t =
     (if t = Credit then Some credit_amount
      else if t = Debit then Some debit_amount
      else None)"

text \<open>\<open>Series.between(left, right)\<close> includes both ends.\<close>

definition series_between :: "rat \<Rightarrow> rat \<Rightarrow> rat \<Rightarrow> bool" where
  "series_between left right x \<longleftrightarrow> left \<le> x \<and> x \<le> right"

definition date_filter :: "criteria \<Rightarrow> transaction list \<Rightarrow> transaction list" where
  "date_filter c df =
     filter (\<lambda>r. date_ge (dt_date (transaction_date r)) (start_date c) \<and>
                 date_le (dt_date (transaction_date r)) (end_date c)) df"

definition amount_filter :: "criteria \<Rightarrow> transaction list \<Rightarrow> transaction list" where
  "amount_filter c filtered_df =
     (case target_column (amount_type c) of
        None \<Rightarrow> filtered_df
      | Some col \<Rightarrow>
          if filter_condition c \<noteq> Any_Amount then
            (if filter_condition c = Greater_Than then
               filter (\<lambda>r. col r > amount1 c) filtered_df
             else if filter_condition c = Less_Than then
               filter (\<lambda>r. col r < amount1 c) filtered_df
             else if filter_condition c = Between then
               (let (a1, a2) = (if amount1 c > amount2 c
                                then (amount2 c, amount1 c)
                                else (amount1 c, amount2 c))
                in filter (\<lambda>r. series_between a1 a2 (col r)) filtered_df)
             else filtered_df)
          else filtered_df)"

definition filtered_df :: "criteria \<Rightarrow> transaction list \<Rightarrow> transaction list" where
  "filtered_df c df = amount_filter c (date_filter c df)"

record metrics =
  total_credit :: rat
  total_debit :: rat
  net_flow :: rat

definition key_metrics :: "transaction list \<Rightarrow> metrics" where
  "key_metrics fdf =
     (let tc = sum_list (map credit_amount fdf);
          td = sum_list (map debit_amount fdf)
      in \<lparr>total_credit = tc, total_debit = td, net_flow = tc - td\<rparr>)"

text \<open>
  The filter engine: the filtered table and the three metrics computed from it. The page
  runs it only when the loaded table has rows, and shows a warning otherwise.
\<close>

definition filter_engine :: "criteria \<Rightarrow> transaction list \<Rightarrow> transaction list \<times> metrics" where
  "filter_engine c df = (let fdf = filtered_df c df in (fdf, key_metrics fdf))"

datatype page = Warning | Shown "transaction list" metrics

definition view_transactions :: "criteria \<Rightarrow> transaction list \<Rightarrow> page" where
  "view_transactions c df =
     (if df = [] then Warning
      else (case filter_engine c df of (fdf, m) \<Rightarrow> Shown fdf m))"

section \<open>Student marks analysis (Day 1/app.py)\<close>

text \<open>
  A data frame is a list of column labels and a list of rows. A cell is a text, a number
  or the missing value \<open>NaN\<close>. \<open>read_csv\<close> yields a rectangular frame (a short line
  is padded with \<open>NaN\<close>) whose labels are pairwise different (a repeated label gets a
  numeric suffix), so a label names one column; reading a cell beyond the end of a row
  gives \<open>NaN\<close>. Numbers are exact rationals.

  A reduction over a range that holds a text cell is reported as \<open>TypeError\<close>; a
  missing label as \<open>KeyError\<close>.
\<close>

datatype cell = Str string | Num rat | NaN

datatype error = TypeError | KeyError

record dataframe =
  columns :: "string list"
  rows :: "cell list list"

definition cell_at :: "cell list \<Rightarrow> nat \<Rightarrow> cell" where
  "cell_at r j = (if j < length r then r ! j else NaN)"

definition column :: "dataframe \<Rightarrow> nat \<Rightarrow> cell list" where
  "column df j = map (\<lambda>r. cell_at r j) (rows df)"

text \<open>Positional slices: \<open>iloc[:, lo:]\<close> and \<open>iloc[:, lo:hi]\<close>; a slice is cut at the end.\<close>

definition iloc_from :: "nat \<Rightarrow> 'a list \<Rightarrow> 'a list" where
  "iloc_from lo xs = drop lo xs"

definition iloc :: "nat \<Rightarrow> nat \<Rightarrow> 'a list \<Rightarrow> 'a list" where
  "iloc lo hi xs = take (hi - lo) (drop lo xs)"

text \<open>\<open>sum\<close> and \<open>mean\<close> skip missing values; the mean of no value is \<open>NaN\<close>.\<close>

fun skipna :: "cell list \<Rightarrow> error + rat list" where
  "skipna [] = Inr []"
| "skipna (Str s # cs) = Inl TypeError"
| "skipna (NaN # cs) = skipna cs"
| "skipna (Num q # cs) = (case skipna cs of Inl e \<Rightarrow> Inl e | Inr qs \<Rightarrow> Inr (q # qs))"

definition nansum :: "cell list \<Rightarrow> error + cell" where
  "nansum cs = (case skipna cs of Inl e \<Rightarrow> Inl e | Inr qs \<Rightarrow> Inr (Num (sum_list qs)))"

definition nanmean :: "cell list \<Rightarrow> error + cell" where
  "nanmean cs =
     (case skipna cs of
        Inl e \<Rightarrow> Inl e
      | Inr qs \<Rightarrow> Inr (if qs = [] then NaN else Num (sum_list qs / of_nat (length qs))))"

fun traverse :: "('a \<Rightarrow> error + 'b) \<Rightarrow> 'a list \<Rightarrow> error + 'b list" where
  "traverse f [] = Inr []"
| "traverse f (x # xs) =
     (case f x of
        Inl e \<Rightarrow> Inl e
      | Inr y \<Rightarrow> (case traverse f xs of Inl e \<Rightarrow> Inl e | Inr ys \<Rightarrow> Inr (y # ys)))"

text \<open>
  \<open>df[name] = values\<close>: an existing column of that label is overwritten in place, a new
  label is appended as the last column.
\<close>

definition setitem :: "dataframe \<Rightarrow> string \<Rightarrow> cell list \<Rightarrow> dataframe" where
  "setitem df name vals =
     (if name \<in> set (columns df) then
        \<lparr>columns = columns df,
         rows = map2 (\<lambda>r v. map2 (\<lambda>n c. if n = name then v else c) (columns df) r)
                  (rows df) vals\<rparr>
      else
        \<lparr>columns = columns df @ [name],
         rows = map2 (\<lambda>r v. r @ [v]) (rows df) vals\<rparr>)"

text \<open>Lines 15 and 16: the two new columns.\<close>

definition augmented_table :: "dataframe \<Rightarrow> error + dataframe" where
  "augmented_table df =
     (case traverse (\<lambda>r. nansum (iloc_from 3 r)) (rows df) of
        Inl e \<Rightarrow> Inl e
      | Inr total_marks \<Rightarrow>
          (let df1 = setitem df ''Total Marks'' total_marks in
           case traverse (\<lambda>r. nanmean (iloc 3 7 r)) (rows df1) of
             Inl e \<Rightarrow> Inl e
           | Inr average_marks \<Rightarrow> Inr (setitem df1 ''Average Marks'' average_marks)))"

text \<open>
  Group keys: the different values of the key column without the missing ones
  (\<open>groupby\<close> drops them), in ascending order; numbers sort before texts, texts by
  code point.
\<close>

fun str_le :: "string \<Rightarrow> string \<Rightarrow> bool" where
  "str_le [] t = True"
| "str_le (a # s) [] = False"
| "str_le (a # s) (b # t) =
     ((of_char a :: nat) < of_char b \<or> (a = b \<and> str_le s t))"

fun cell_le :: "cell \<Rightarrow> cell \<Rightarrow> bool" where
  "cell_le (Num a) (Num b) = (a \<le> b)"
| "cell_le (Num a) (Str t) = True"
| "cell_le (Str s) (Num b) = False"
| "cell_le (Str s) (Str t) = str_le s t"
| "cell_le NaN c = (c = NaN)"
| "cell_le c NaN = True"

fun insort_cell :: "cell \<Rightarrow> cell list \<Rightarrow> cell list" where
  "insort_cell k [] = [k]"
| "insort_cell k (x # xs) = (if cell_le k x then k # x # xs else x # insort_cell k xs)"

definition sort_cells :: "cell list \<Rightarrow> cell list" where
  "sort_cells ks = foldr insort_cell ks []"

definition group_keys :: "cell list \<Rightarrow> cell list" where
  "group_keys ks = sort_cells (remdups (filter (\<lambda>k. k \<noteq> NaN) ks))"

fun index_of :: "'a \<Rightarrow> 'a list \<Rightarrow> nat option" where
  "index_of x [] = None"
| "index_of x (y # ys) = (if x = y then Some 0 else map_option Suc (index_of x ys))"

definition group_rows :: "dataframe \<Rightarrow> nat \<Rightarrow> cell \<Rightarrow> cell list list" where
  "group_rows df ci k = filter (\<lambda>r. cell_at r ci = k) (rows df)"

text \<open>
  Line 19: \<open>df.groupby("Class")[df.columns[3:7]].mean()\<close>, one row per key, holding the
  mean of each selected column over the rows of that key.
\<close>

definition class_averages :: "dataframe \<Rightarrow> error + (cell \<times> cell list) list" where
  "class_averages df =
     (case index_of ''Class'' (columns df) of
        None \<Rightarrow> Inl KeyError
      | Some ci \<Rightarrow>
          traverse
            (\<lambda>k. case traverse (\<lambda>j. nanmean (map (\<lambda>r. cell_at r j) (group_rows df ci k)))
                         (iloc 3 7 [0..<length (columns df)]) of
                    Inl e \<Rightarrow> Inl e
                  | Inr ms \<Rightarrow> Inr (k, ms))
            (group_keys (column df ci)))"

text \<open>Line 22: \<open>df.iloc[:, 3:7].mean()\<close>, one entry per selected column, under its label.\<close>

definition subject_averages :: "dataframe \<Rightarrow> error + (string \<times> cell) list" where
  "subject_averages df =
     traverse
       (\<lambda>j. case nanmean (column df j) of
               Inl e \<Rightarrow> Inl e
             | Inr m \<Rightarrow> Inr (columns df ! j, m))
       (iloc 3 7 [0..<length (columns df)])"

text \<open>Lines 15 to 22, in the order the page runs them; the first error ends the run.\<close>

definition aggregate ::
  "dataframe \<Rightarrow> error + (dataframe \<times> (cell \<times> cell list) list \<times> (string \<times> cell) list)" where
  "aggregate df =
     (case augmented_table df of
        Inl e \<Rightarrow> Inl e
      | Inr df2 \<Rightarrow>
          (case class_averages df2 of
             Inl e \<Rightarrow> Inl e
           | Inr ca \<Rightarrow>
               (case subject_averages df2 of
                  Inl e \<Rightarrow> Inl e
                | Inr sa \<Rightarrow> Inr (df2, ca, sa))))"

section \<open>Vocabulary of the properties\<close>

subsection \<open>Transactions\<close>

text \<open>
  The predicates below follow the wording of the specification, not the code: the day of
  a row, the inclusive date range, and the amount condition on the selected column.
\<close>

definition row_day :: "transaction \<Rightarrow> date" where
  "row_day r = ts_date (transaction_date r)"

definition in_date_range :: "criteria \<Rightarrow> transaction \<Rightarrow> bool" where
  "in_date_range c r \<longleftrightarrow>
     date_le (start_date c) (row_day r) \<and> date_le (row_day r) (end_date c)"

definition condition_holds :: "criteria \<Rightarrow> rat \<Rightarrow> bool" where
  "condition_holds c a =
     (case filter_condition c of
        Any_Amount \<Rightarrow> True
      | Greater_Than \<Rightarrow> amount1 c < a
      | Less_Than \<Rightarrow> a < amount1 c
      | Between \<Rightarrow> min (amount1 c) (amount2 c) \<le> a \<and> a \<le> max (amount1 c) (amount2 c))"

definition amount_ok :: "criteria \<Rightarrow> transaction \<Rightarrow> bool" where
  "amount_ok c r =
     (case amount_type c of
        All_Types \<Rightarrow> True
      | Credit \<Rightarrow> condition_holds c (credit_amount r)
      | Debit \<Rightarrow> condition_holds c (debit_amount r))"

text \<open>The three transactions of the specification's scenario, and criteria over them.\<close>

definition jan_rows :: "transaction list" where
  "jan_rows =
    [\<lparr>transaction_date = \<lparr>ts_date = \<lparr>year = 2024, month = 1, day = 1\<rparr>, ts_seconds = 0\<rparr>,
      description = ''salary'', debit_amount = 0, credit_amount = 1000, balance = 1000\<rparr>,
     \<lparr>transaction_date = \<lparr>ts_date = \<lparr>year = 2024, month = 1, day = 5\<rparr>, ts_seconds = 43200\<rparr>,
      description = ''rent'', debit_amount = 300, credit_amount = 0, balance = 700\<rparr>,
     \<lparr>transaction_date = \<lparr>ts_date = \<lparr>year = 2024, month = 2, day = 1\<rparr>, ts_seconds = 0\<rparr>,
      description = ''refund'', debit_amount = 0, credit_amount = 500, balance = 1200\<rparr>]"

definition jan_criteria :: criteria where
  "jan_criteria =
     \<lparr>start_date = \<lparr>year = 2024, month = 1, day = 1\<rparr>,
      end_date = \<lparr>year = 2024, month = 1, day = 31\<rparr>,
      amount_type = All_Types, filter_condition = Any_Amount, amount1 = 0, amount2 = 0\<rparr>"

definition reversed_criteria :: criteria where
  "reversed_criteria =
     \<lparr>start_date = \<lparr>year = 2024, month = 2, day = 1\<rparr>,
      end_date = \<lparr>year = 2024, month = 1, day = 1\<rparr>,
      amount_type = All_Types, filter_condition = Any_Amount, amount1 = 0, amount2 = 0\<rparr>"

definition between_criteria :: criteria where
  "between_criteria =
     \<lparr>start_date = \<lparr>year = 2024, month = 1, day = 1\<rparr>,
      end_date = \<lparr>year = 2024, month = 12, day = 31\<rparr>,
      amount_type = Credit, filter_condition = Between, amount1 = 1000, amount2 = 400\<rparr>"

subsection \<open>Student tables\<close>

text \<open>
  The number held by a cell, the arithmetic mean of a list of numbers, and three
  conditions on an input: \<open>rectangular\<close>, every cell from a given column on a number
  (\<open>numeric_from\<close>), and no column yet labelled \<open>Total Marks\<close> or
  \<open>Average Marks\<close> (\<open>fresh_labels\<close>). \<open>with_totals\<close> is the
  input with two appended columns, written from the specification's words: the sum of
  the cells from the fourth column to the end, and the mean of the cells of the fourth to
  seventh column.
\<close>

fun is_num :: "cell \<Rightarrow> bool" where
  "is_num (Num q) = True"
| "is_num c = False"

fun num_of :: "cell \<Rightarrow> rat" where
  "num_of (Num q) = q"
| "num_of c = 0"

definition arith_mean :: "rat list \<Rightarrow> rat" where
  "arith_mean qs = sum_list qs / of_nat (length qs)"

definition rectangular :: "dataframe \<Rightarrow> bool" where
  "rectangular df \<longleftrightarrow> (\<forall>r\<in>set (rows df). length r = length (columns df))"

definition numeric_from :: "nat \<Rightarrow> dataframe \<Rightarrow> bool" where
  "numeric_from n df \<longleftrightarrow> (\<forall>r\<in>set (rows df). \<forall>c\<in>set (drop n r). is_num c)"

definition fresh_labels :: "dataframe \<Rightarrow> bool" where
  "fresh_labels df \<longleftrightarrow>
     ''Total Marks'' \<notin> set (columns df) \<and> ''Average Marks'' \<notin> set (columns df)"

definition with_totals :: "dataframe \<Rightarrow> dataframe" where
  "with_totals df =
     \<lparr>columns = columns df @ [''Total Marks'', ''Average Marks''],
      rows = map (\<lambda>r. r @ [Num (sum_list (map num_of (drop 3 r))),
                            Num (arith_mean (map num_of (take 4 (drop 3 r))))]) (rows df)\<rparr>"

text \<open>
  A student table has the documented shape: at least three leading columns followed by
  at least four subject columns, one column labelled \<open>Class\<close>. \<open>class_known\<close> says
  that every row has a class value. \<open>group_size\<close> counts the rows of a class,
  \<open>weighted_mean\<close> takes pairs of a weight and a value, and \<open>round2\<close> rounds to two
  decimals.
\<close>

definition student_table :: "dataframe \<Rightarrow> bool" where
  "student_table df \<longleftrightarrow>
     rectangular df \<and> 7 \<le> length (columns df) \<and> ''Class'' \<in> set (columns df) \<and>
     numeric_from 3 df"

definition class_known :: "dataframe \<Rightarrow> bool" where
  "class_known df =
     (case index_of ''Class'' (columns df) of
        None \<Rightarrow> False
      | Some ci \<Rightarrow> list_all (\<lambda>r. cell_at r ci \<noteq> NaN) (rows df))"

definition column_mean :: "dataframe \<Rightarrow> nat \<Rightarrow> rat" where
  "column_mean df j = arith_mean (map (\<lambda>r. num_of (cell_at r j)) (rows df))"

definition group_size :: "dataframe \<Rightarrow> cell \<Rightarrow> nat" where
  "group_size df k =
     (case index_of ''Class'' (columns df) of
        None \<Rightarrow> 0
      | Some ci \<Rightarrow> length (filter (\<lambda>r. cell_at r ci = k) (rows df)))"

definition weighted_mean :: "(rat \<times> rat) list \<Rightarrow> rat" where
  "weighted_mean wvs = sum_list (map (\<lambda>(w, v). w * v) wvs) / sum_list (map fst wvs)"

definition round2 :: "rat \<Rightarrow> rat" where
  "round2 q = of_int (round (q * 100)) / 100"

definition marks_table :: dataframe where
  "marks_table =
     \<lparr>columns = [''Name'', ''Roll No'', ''Class'', ''Maths'', ''Physics'', ''Chemistry'', ''English''],
      rows = [[Str ''Asha'', Num 1, Str ''A'', Num 10, Num 20, Num 30, Num 40],
              [Str ''Ravi'', Num 2, Str ''A'', Num 20, Num 20, Num 20, Num 20],
              [Str ''Kiran'', Num 3, Str ''B'', Num 0, Num 0, Num 0, Num 0]]\<rparr>"

definition empty_marks :: dataframe where
  "empty_marks = \<lparr>columns = columns marks_table, rows = []\<rparr>"

definition short_table :: dataframe where
  "short_table =
     \<lparr>columns = [''Name'', ''Roll No'', ''Class'', ''Maths'', ''Physics''],
      rows = [[Str ''Asha'', Num 1, Str ''A'', Num 1, Num 2]]\<rparr>"

text \<open>
  The scenario table with its two new columns, the averages of the scenario table without
  rows, and the absence of \<open>NaN\<close> from a list of averages.
\<close>

definition nan_free :: "(string \<times> cell) list \<Rightarrow> bool" where
  "nan_free sa \<longleftrightarrow> NaN \<notin> snd ` set sa"

definition marks_totals :: dataframe where
  "marks_totals =
     \<lparr>columns = [''Name'', ''Roll No'', ''Class'', ''Maths'', ''Physics'', ''Chemistry'',
                  ''English'', ''Total Marks'', ''Average Marks''],
      rows = [[Str ''Asha'', Num 1, Str ''A'', Num 10, Num 20, Num 30, Num 40, Num 100, Num 25],
              [Str ''Ravi'', Num 2, Str ''A'', Num 20, Num 20, Num 20, Num 20, Num 80, Num 20],
              [Str ''Kiran'', Num 3, Str ''B'', Num 0, Num 0, Num 0, Num 0, Num 0, Num 0]]\<rparr>"

definition nan_averages :: "(string \<times> cell) list" where
  "nan_averages =
     [(''Maths'', NaN), (''Physics'', NaN), (''Chemistry'', NaN), (''English'', NaN)]"

text \<open>
  The two assignments of lines 15 and 16 written row by row, without assuming that the
  labels are new: \<open>labels_after\<close> and \<open>row_after\<close> give the labels and a row after
  \<open>df[name] = v\<close> (the cell under an existing label is overwritten, a new label is
  appended), \<open>marks_row\<close> a row after both assignments, \<open>with_marks\<close> the whole
  table.
\<close>

definition labels_after :: "string \<Rightarrow> string list \<Rightarrow> string list" where
  "labels_after name cols = (if name \<in> set cols then cols else cols @ [name])"

definition row_after :: "string \<Rightarrow> string list \<Rightarrow> cell list \<Rightarrow> cell \<Rightarrow> cell list" where
  "row_after name cols r v =
     (if name \<in> set cols then map2 (\<lambda>n c. if n = name then v else c) cols r else r @ [v])"

definition marks_row :: "string list \<Rightarrow> cell list \<Rightarrow> cell list" where
  "marks_row cols r =
     (let r1 = row_after ''Total Marks'' cols r (Num (sum_list (map num_of (drop 3 r))))
      in row_after ''Average Marks'' (labels_after ''Total Marks'' cols) r1
           (Num (arith_mean (map num_of (take 4 (drop 3 r1))))))"

definition with_marks :: "dataframe \<Rightarrow> dataframe" where
  "with_marks df =
     \<lparr>columns = labels_after ''Average Marks'' (labels_after ''Total Marks'' (columns df)),
      rows = map (marks_row (columns df)) (rows df)\<rparr>"

text \<open>
  \<open>cell_named\<close> reads the cell of a row under a label. \<open>subject_labels_kept\<close> says
  that none of the fourth to seventh column is labelled \<open>Total Marks\<close> or
  \<open>Average Marks\<close>. \<open>class_weights\<close> pairs, for the \<open>i\<close>-th subject column, the
  number of rows of each class of the input with that class's average.
\<close>

definition cell_named :: "dataframe \<Rightarrow> string \<Rightarrow> cell list \<Rightarrow> cell" where
  "cell_named df name r =
     (case index_of name (columns df) of None \<Rightarrow> NaN | Some j \<Rightarrow> cell_at r j)"

definition subject_labels_kept :: "dataframe \<Rightarrow> bool" where
  "subject_labels_kept df \<longleftrightarrow>
     ''Total Marks'' \<notin> set (take 4 (drop 3 (columns df))) \<and>
     ''Average Marks'' \<notin> set (take 4 (drop 3 (columns df)))"

definition class_weights :: "dataframe \<Rightarrow> (cell \<times> cell list) list \<Rightarrow> nat \<Rightarrow> (rat \<times> rat) list" where
  "class_weights df ca i = map (\<lambda>(k, ms). (of_nat (group_size df k), num_of (ms ! i))) ca"

text \<open>
  A two-row table whose second row has no class value, and a one-row table whose seventh
  column is already labelled \<open>Total Marks\<close>, each with the table the two assignments
  make of it.
\<close>

definition blank_class_table :: dataframe where
  "blank_class_table =
     \<lparr>columns = [''Name'', ''Roll No'', ''Class'', ''Maths'', ''Physics'', ''Chemistry'', ''English''],
      rows = [[Str ''Asha'', Num 1, Str ''A'', Num 20, Num 20, Num 20, Num 20],
              [Str ''Ravi'', Num 2, NaN, Num 10, Num 10, Num 10, Num 10]]\<rparr>"

definition blank_class_marks :: dataframe where
  "blank_class_marks =
     \<lparr>columns = [''Name'', ''Roll No'', ''Class'', ''Maths'', ''Physics'', ''Chemistry'',
                  ''English'', ''Total Marks'', ''Average Marks''],
      rows = [[Str ''Asha'', Num 1, Str ''A'', Num 20, Num 20, Num 20, Num 20, Num 80, Num 20],
              [Str ''Ravi'', Num 2, NaN, Num 10, Num 10, Num 10, Num 10, Num 40, Num 10]]\<rparr>"

definition labelled_total_table :: dataframe where
  "labelled_total_table =
     \<lparr>columns = [''Name'', ''Roll No'', ''Class'', ''Maths'', ''Physics'', ''Chemistry'',
                  ''Total Marks''],
      rows = [[Str ''Asha'', Num 1, Str ''A'', Num 10, Num 20, Num 30, Num 60]]\<rparr>"

definition labelled_total_marks :: dataframe where
  "labelled_total_marks =
     \<lparr>columns = [''Name'', ''Roll No'', ''Class'', ''Maths'', ''Physics'', ''Chemistry'',
                  ''Total Marks'', ''Average Marks''],
      rows = [[Str ''Asha'', Num 1, Str ''A'', Num 10, Num 20, Num 30, Num 120, Num 45]]\<rparr>"

section \<open>Properties of the transaction filter\<close>

lemma amount_filter_eq: "amount_filter c xs = filter (amount_ok c) xs"
  by (cases "amount_type c"; cases "filter_condition c")
     (auto simp: amount_filter_def amount_ok_def condition_holds_def target_column_def
        series_between_def min_def max_def intro!: filter_cong)

lemma date_lt_not_le: "date_lt b a \<Longrightarrow> date_le a x \<Longrightarrow> date_le x b \<Longrightarrow> False"
  by (auto simp: date_lt_def date_le_def)

text \<open>What the page shows: a warning for a table without rows, the engine's result otherwise.\<close>

lemma view_transactions_shown:
  "df \<noteq> [] \<Longrightarrow>
     view_transactions c df = Shown (fst (filter_engine c df)) (snd (filter_engine c df))"
  by (simp add: view_transactions_def split: prod.split)

lemma view_transactions_warning: "view_transactions c [] = Warning"
  by (simp add: view_transactions_def)

text \<open>
  Claim C2. For every table and criteria the filtered table is the input restricted, in
  input order, to the rows whose day lies in the inclusive range from \<open>start_date\<close> to
  \<open>end_date\<close> and whose selected amount satisfies the condition: above \<open>amount1\<close>
  for Greater Than, below it for Less Than, between the two bounds (ends included) for
  Between; no amount condition for type All or condition Any Amount.
\<close>

theorem filter_engine_rows:
  "fst (filter_engine c df) = filter (\<lambda>r. in_date_range c r \<and> amount_ok c r) df"
  by (simp add: filter_engine_def Let_def filtered_df_def amount_filter_eq date_filter_def
      in_date_range_def row_day_def date_ge_def dt_date_def conj_commute)

theorem filter_engine_rows_witness:
  "fst (filter_engine jan_criteria jan_rows) = take 2 jan_rows"
  using filter_engine_rows [of jan_criteria jan_rows]
  by (simp add: jan_rows_def jan_criteria_def in_date_range_def row_day_def amount_ok_def
      date_le_def)

text \<open>
  Claim C4. The metrics returned with the filtered table are the sum of the credit
  amounts and the sum of the debit amounts over the filtered rows, and their difference;
  when no row passes the filter, all three are zero.
\<close>

theorem filter_engine_metrics:
  "filter_engine c df = (fdf, m) \<Longrightarrow>
     fdf = filtered_df c df \<and>
     total_credit m = sum_list (map credit_amount fdf) \<and>
     total_debit m = sum_list (map debit_amount fdf) \<and>
     net_flow m = total_credit m - total_debit m \<and>
     (fdf = [] \<longrightarrow> total_credit m = 0 \<and> total_debit m = 0 \<and> net_flow m = 0)"
  by (auto simp: filter_engine_def key_metrics_def Let_def)

theorem filter_engine_metrics_witness:
  "filter_engine jan_criteria jan_rows =
     (take 2 jan_rows, \<lparr>total_credit = 1000, total_debit = 300, net_flow = 700\<rparr>) \<and>
   sum_list (map credit_amount (take 2 jan_rows)) = 1000 \<and>
   sum_list (map debit_amount (take 2 jan_rows)) = 300"
proof -
  have h: "filter_engine jan_criteria jan_rows =
      (take 2 jan_rows, \<lparr>total_credit = 1000, total_debit = 300, net_flow = 700\<rparr>)"
    by (simp add: filter_engine_def filtered_df_def date_filter_def amount_filter_def
        target_column_def key_metrics_def jan_rows_def jan_criteria_def date_ge_def
        date_le_def dt_date_def Let_def)
  note m = filter_engine_metrics [OF h]
  have "sum_list (map credit_amount (take 2 jan_rows)) = 1000"
    using m [THEN conjunct2, THEN conjunct1] by simp
  moreover have "sum_list (map debit_amount (take 2 jan_rows)) = 300"
    using m [THEN conjunct2, THEN conjunct2, THEN conjunct1] by simp
  ultimately show ?thesis using h by blast
qed

text \<open>
  Claim C6. When \<open>start_date\<close> is later than \<open>end_date\<close> the bounds are used as
  given: no row passes the date filter, so the filtered table is empty and the metrics
  are zero; nothing is raised.
\<close>

theorem reversed_date_range_empty:
  "date_gt (start_date c) (end_date c) \<Longrightarrow>
     filter_engine c df = ([], \<lparr>total_credit = 0, total_debit = 0, net_flow = 0\<rparr>)"
proof -
  assume gt: "date_gt (start_date c) (end_date c)"
  have "date_filter c df = []"
    unfolding date_filter_def date_ge_def
    using gt date_lt_not_le [of "end_date c" "start_date c"]
    by (auto simp: date_gt_def filter_empty_conv)
  moreover have "amount_filter c [] = []"
    by (simp add: amount_filter_eq)
  ultimately show ?thesis
    by (simp add: filter_engine_def filtered_df_def key_metrics_def Let_def)
qed

theorem reversed_date_range_empty_witness:
  "date_gt (start_date reversed_criteria) (end_date reversed_criteria) \<and>
   filter_engine reversed_criteria jan_rows =
     ([], \<lparr>total_credit = 0, total_debit = 0, net_flow = 0\<rparr>)"
proof -
  have h: "date_gt (start_date reversed_criteria) (end_date reversed_criteria)"
    by (simp add: reversed_criteria_def date_gt_def date_lt_def)
  from reversed_date_range_empty [OF h, of jan_rows] h show ?thesis by simp
qed

text \<open>
  Claim C7. For type Credit or Debit and condition Between, giving the two bounds with
  the larger one first yields the same filtered table and the same metrics as giving
  them in order.
\<close>

theorem between_swap:
  "amount_type c = Credit \<or> amount_type c = Debit \<Longrightarrow>
   filter_condition c = Between \<Longrightarrow>
   amount1 c > amount2 c \<Longrightarrow>
   filter_engine c df = filter_engine (c\<lparr>amount1 := amount2 c, amount2 := amount1 c\<rparr>) df"
  by (auto simp: filter_engine_def filtered_df_def amount_filter_def date_filter_def
       target_column_def Let_def)

theorem between_swap_witness:
  "(amount_type between_criteria = Credit \<or> amount_type between_criteria = Debit) \<and>
   filter_condition between_criteria = Between \<and>
   amount1 between_criteria > amount2 between_criteria \<and>
   filter_engine between_criteria jan_rows =
     filter_engine (between_criteria\<lparr>amount1 := 400, amount2 := 1000\<rparr>) jan_rows"
proof -
  have h1: "amount_type between_criteria = Credit \<or> amount_type between_criteria = Debit"
    and h2: "filter_condition between_criteria = Between"
    and h3: "amount1 between_criteria > amount2 between_criteria"
    by (simp_all add: between_criteria_def)
  have b: "amount2 between_criteria = 400" "amount1 between_criteria = 1000"
    by (simp_all add: between_criteria_def)
  from between_swap [OF h1 h2 h3, of jan_rows] h1 h2 h3 show ?thesis
    by (simp only: b simp_thms)
qed

section \<open>Properties of the marks analysis\<close>

subsection \<open>Auxiliary facts\<close>

lemma skipna_nums: "\<forall>c\<in>set cs. is_num c \<Longrightarrow> skipna cs = Inr (map num_of cs)"
proof (induction cs)
  case Nil
  show ?case by simp
next
  case (Cons c cs)
  then show ?case by (cases c) simp_all
qed

lemma traverse_map: "(\<And>x. x \<in> set xs \<Longrightarrow> f x = Inr (g x)) \<Longrightarrow> traverse f xs = Inr (map g xs)"
  by (induction xs) simp_all

lemma map2_same: "map2 f xs (map g xs) = map (\<lambda>x. f x (g x)) xs"
  by (induction xs) simp_all

lemma nansum_nums: "\<forall>c\<in>set cs. is_num c \<Longrightarrow> nansum cs = Inr (Num (sum_list (map num_of cs)))"
  by (simp add: nansum_def skipna_nums)

lemma nanmean_nums:
  "\<forall>c\<in>set cs. is_num c \<Longrightarrow> cs \<noteq> [] \<Longrightarrow> nanmean cs = Inr (Num (arith_mean (map num_of cs)))"
  by (simp add: nanmean_def skipna_nums arith_mean_def)

lemma setitem_new:
  "name \<notin> set (columns df) \<Longrightarrow>
   setitem df name (map g (rows df)) =
     \<lparr>columns = columns df @ [name], rows = map (\<lambda>r. r @ [g r]) (rows df)\<rparr>"
  by (simp add: setitem_def map2_same)

lemma augmented_table_shape:
  assumes rect: "rectangular df" and len: "7 \<le> length (columns df)"
    and num: "numeric_from 3 df" and fresh: "fresh_labels df"
  shows "augmented_table df = Inr (with_totals df)"
proof -
  let ?T = "\<lambda>r. Num (sum_list (map num_of (drop 3 r)))"
  let ?A = "\<lambda>r. Num (arith_mean (map num_of (take 4 (drop 3 r))))"
  have t: "traverse (\<lambda>r. nansum (iloc_from 3 r)) (rows df) = Inr (map ?T (rows df))"
    using num by (intro traverse_map) (simp add: iloc_from_def nansum_nums numeric_from_def)
  let ?df1 = "setitem df ''Total Marks'' (map ?T (rows df))"
  have df1: "?df1 = \<lparr>columns = columns df @ [''Total Marks''],
                     rows = map (\<lambda>r. r @ [?T r]) (rows df)\<rparr>"
    using fresh by (simp add: setitem_new fresh_labels_def)
  have a: "traverse (\<lambda>r. nanmean (iloc 3 7 r)) (rows ?df1) =
             Inr (map (\<lambda>r. ?A (take (length (columns df)) r)) (rows ?df1))"
  proof (intro traverse_map)
    fix r' assume "r' \<in> set (rows ?df1)"
    then obtain r where r: "r \<in> set (rows df)" and r': "r' = r @ [?T r]"
      by (auto simp: df1)
    have lr: "length r = length (columns df)" using rect r by (simp add: rectangular_def)
    have win: "iloc 3 7 (r @ [?T r]) = take 4 (drop 3 r)"
      using len lr by (simp add: iloc_def)
    have "\<forall>c\<in>set (take 4 (drop 3 r)). is_num c"
      using num r by (auto simp: numeric_from_def dest: in_set_takeD)
    moreover have "take 4 (drop 3 r) \<noteq> []" using len lr by simp
    ultimately show "nanmean (iloc 3 7 r') = Inr (?A (take (length (columns df)) r'))"
      using lr by (simp add: r' win nanmean_nums)
  qed
  have fresh2: "''Average Marks'' \<notin> set (columns ?df1)"
    using fresh by (simp add: df1 fresh_labels_def)
  have "setitem ?df1 ''Average Marks'' (map (\<lambda>r. ?A (take (length (columns df)) r)) (rows ?df1))
        = \<lparr>columns = columns ?df1 @ [''Average Marks''],
           rows = map (\<lambda>r. r @ [?A (take (length (columns df)) r)]) (rows ?df1)\<rparr>"
    using fresh2 by (rule setitem_new)
  also have "\<dots> = with_totals df"
    using rect by (simp add: df1 with_totals_def rectangular_def)
  finally show ?thesis
    by (simp add: augmented_table_def t a Let_def)
qed

lemma iloc_window: "7 \<le> n \<Longrightarrow> iloc 3 7 [0..<n] = [3, 4, 5, 6]"
proof -
  assume "7 \<le> n"
  then have "take 4 (drop 3 [0..<n]) = [3..<7]" by (simp add: take_upt)
  also have "\<dots> = [3, 4, 5, 6]" by (simp add: upt_rec)
  finally show ?thesis by (simp add: iloc_def)
qed

lemma nanmean_nums_or_empty:
  "\<forall>c\<in>set cs. is_num c \<Longrightarrow>
     nanmean cs = Inr (if cs = [] then NaN else Num (arith_mean (map num_of cs)))"
  by (simp add: nanmean_def skipna_nums arith_mean_def)

lemma numeric_cell:
  "numeric_from 3 df \<Longrightarrow> r \<in> set (rows df) \<Longrightarrow> 3 \<le> j \<Longrightarrow> j < length r \<Longrightarrow> is_num (r ! j)"
proof -
  assume num: "numeric_from 3 df" and r: "r \<in> set (rows df)" and j: "3 \<le> j" "j < length r"
  have "drop 3 r ! (j - 3) = r ! j" using j by simp
  moreover have "drop 3 r ! (j - 3) \<in> set (drop 3 r)" using j by (intro nth_mem) simp
  ultimately show ?thesis using num r by (auto simp: numeric_from_def)
qed

lemma index_of_Some: "x \<in> set xs \<Longrightarrow> \<exists>i. index_of x xs = Some i \<and> i < length xs"
  by (induction xs) auto

lemma index_of_SomeD: "index_of x xs = Some i \<Longrightarrow> x \<in> set xs \<and> i < length xs"
  by (induction xs arbitrary: i) (auto split: if_splits)

lemma index_of_append: "x \<in> set xs \<Longrightarrow> index_of x (xs @ ys) = index_of x xs"
  by (induction xs) auto

lemma set_insort_cell: "set (insort_cell k xs) = insert k (set xs)"
  by (induction xs) auto

lemma distinct_insort_cell: "distinct (insort_cell k xs) \<longleftrightarrow> k \<notin> set xs \<and> distinct xs"
  by (induction xs) (auto simp: set_insort_cell)

lemma set_sort_cells: "set (sort_cells ks) = set ks"
  by (induction ks) (simp_all add: sort_cells_def set_insort_cell)

lemma distinct_sort_cells: "distinct (sort_cells ks) \<longleftrightarrow> distinct ks"
  using set_sort_cells
  by (induction ks) (simp_all add: sort_cells_def distinct_insort_cell)

lemma set_group_keys: "set (group_keys ks) = set ks - {NaN}"
  by (auto simp: group_keys_def set_sort_cells)

lemma distinct_group_keys: "distinct (group_keys ks)"
  by (simp add: group_keys_def distinct_sort_cells)

lemma window_nth: "7 \<le> length xs \<Longrightarrow> take 4 (drop 3 xs) = map (nth xs) [3, 4, 5, 6]"
proof -
  assume len: "7 \<le> length xs"
  have "take 4 (drop 3 (map (nth xs) [0..<length xs])) =
        map (nth xs) (take 4 (drop 3 [0..<length xs]))"
    by (simp only: take_map drop_map)
  also have "\<dots> = map (nth xs) [3, 4, 5, 6]"
    using iloc_window [OF len] by (simp add: iloc_def)
  finally show ?thesis by (simp only: map_nth)
qed

lemma sum_list_pick:
  fixes c :: "'b::comm_monoid_add"
  shows "distinct ks \<Longrightarrow> a \<in> set ks \<Longrightarrow> (\<Sum>k\<leftarrow>ks. if a = k then c else 0) = c"
proof (induction ks)
  case Nil
  then show ?case by simp
next
  case (Cons k ks)
  show ?case
  proof (cases "a = k")
    case True
    then have "a \<notin> set ks" using Cons.prems by simp
    then have "(\<Sum>k\<leftarrow>ks. if a = k then c else 0) = 0"
      by (induction ks) auto
    with True show ?thesis by simp
  next
    case False
    with Cons show ?thesis by simp
  qed
qed

lemma sum_list_groups:
  fixes f :: "'a \<Rightarrow> 'b::comm_monoid_add"
  assumes "distinct ks" "key ` set xs \<subseteq> set ks"
  shows "(\<Sum>k\<leftarrow>ks. sum_list (map f (filter (\<lambda>x. key x = k) xs))) = sum_list (map f xs)"
  using assms(2)
proof (induction xs)
  case Nil
  show ?case by simp
next
  case (Cons x xs)
  have "(\<Sum>k\<leftarrow>ks. sum_list (map f (filter (\<lambda>y. key y = k) (x # xs)))) =
        (\<Sum>k\<leftarrow>ks. (if key x = k then f x else 0) +
                    sum_list (map f (filter (\<lambda>y. key y = k) xs)))"
    by (intro arg_cong [where f = sum_list] map_cong) auto
  also have "\<dots> = (\<Sum>k\<leftarrow>ks. if key x = k then f x else 0) +
                  (\<Sum>k\<leftarrow>ks. sum_list (map f (filter (\<lambda>y. key y = k) xs)))"
    by (simp add: sum_list_addf)
  also have "\<dots> = f x + sum_list (map f xs)"
    using Cons assms(1) by (simp add: sum_list_pick)
  finally show ?case by simp
qed

lemma weighted_group_means:
  fixes f :: "'a \<Rightarrow> rat"
  assumes d: "distinct ks" and cover: "key ` set xs \<subseteq> set ks"
  shows "weighted_mean
           (map (\<lambda>k. (of_nat (length (filter (\<lambda>x. key x = k) xs)),
                       arith_mean (map f (filter (\<lambda>x. key x = k) xs)))) ks) =
         arith_mean (map f xs)"
proof -
  let ?G = "\<lambda>k. filter (\<lambda>x. key x = k) xs"
  have prod: "of_nat (length (?G k)) * arith_mean (map f (?G k)) = sum_list (map f (?G k))" for k
    by (cases "?G k = []") (simp_all add: arith_mean_def)
  have "(\<Sum>k\<leftarrow>ks. of_nat (length (?G k)) * arith_mean (map f (?G k))) = sum_list (map f xs)"
    by (simp only: prod sum_list_groups [OF d cover])
  moreover have "(\<Sum>k\<leftarrow>ks. (of_nat (length (?G k)) :: rat)) = of_nat (length xs)"
  proof -
    have "(of_nat (length ys) :: rat) = sum_list (map (\<lambda>_. 1) ys)" for ys :: "'a list"
      by (induction ys) simp_all
    then show ?thesis
      using sum_list_groups [OF d cover, of "\<lambda>_. 1 :: rat"] by simp
  qed
  ultimately show ?thesis
    by (simp add: weighted_mean_def comp_def arith_mean_def)
qed

lemma marks_table_shape:
  "rectangular marks_table" "length (columns marks_table) = 7" "numeric_from 3 marks_table"
  "fresh_labels marks_table" "''Class'' \<in> set (columns marks_table)"
  by (simp_all add: marks_table_def rectangular_def numeric_from_def fresh_labels_def)

lemma column_mean_nth:
  "rectangular df \<Longrightarrow> j < length (columns df) \<Longrightarrow>
   column_mean df j = arith_mean (map (\<lambda>r. num_of (r ! j)) (rows df))"
  by (simp add: column_mean_def rectangular_def cell_at_def cong: map_cong)

lemma group_size_nth:
  assumes "rectangular df" "index_of ''Class'' (columns df) = Some ci"
  shows "group_size df k = length (filter (\<lambda>r. r ! ci = k) (rows df))"
proof -
  have "ci < length (columns df)" using index_of_SomeD [OF assms(2)] by simp
  then have "filter (\<lambda>r. cell_at r ci = k) (rows df) = filter (\<lambda>r. r ! ci = k) (rows df)"
    using assms(1) by (intro filter_cong) (simp_all add: rectangular_def cell_at_def)
  then show ?thesis by (simp add: group_size_def assms(2))
qed

lemma window_labels: "map (nth xs) (iloc 3 7 [0..<length xs]) = take 4 (drop 3 xs)"
proof -
  have "map (nth xs) (take 4 (drop 3 [0..<length xs])) =
        take 4 (drop 3 (map (nth xs) [0..<length xs]))"
    by (simp only: take_map drop_map)
  then show ?thesis by (simp only: map_nth iloc_def) simp
qed

lemma subject_averages_no_rows:
  assumes "rows a = []"
  shows "subject_averages a = Inr (map (\<lambda>n. (n, NaN)) (take 4 (drop 3 (columns a))))"
proof -
  have "subject_averages a =
        Inr (map (\<lambda>j. (columns a ! j, NaN)) (iloc 3 7 [0..<length (columns a)]))"
    unfolding subject_averages_def
    by (intro traverse_map) (simp add: column_def assms nanmean_def)
  also have "map (\<lambda>j. (columns a ! j, NaN)) (iloc 3 7 [0..<length (columns a)]) =
      map (\<lambda>n. (n, NaN)) (map (nth (columns a)) (iloc 3 7 [0..<length (columns a)]))"
    by (simp add: comp_def)
  finally show ?thesis by (simp only: window_labels)
qed

lemma class_averages_no_rows:
  assumes "rows a = []" "''Class'' \<in> set (columns a)"
  shows "class_averages a = Inr []"
proof -
  from index_of_Some [OF assms(2)] obtain ci where "index_of ''Class'' (columns a) = Some ci"
    by blast
  then show ?thesis
    by (simp add: class_averages_def column_def assms(1) group_keys_def sort_cells_def)
qed

lemma setitem_rows:
  "setitem df name (map g (rows df)) =
     \<lparr>columns = labels_after name (columns df),
      rows = map (\<lambda>r. row_after name (columns df) r (g r)) (rows df)\<rparr>"
  by (simp add: setitem_def labels_after_def row_after_def map2_same)

lemma length_row_after:
  "length r = length cols \<Longrightarrow> length (row_after name cols r v) = length (labels_after name cols)"
  by (simp add: row_after_def labels_after_def)

lemma nth_row_after:
  "length r = length cols \<Longrightarrow> j < length cols \<Longrightarrow>
   row_after name cols r v ! j = (if cols ! j = name then v else r ! j)"
  by (auto simp: row_after_def nth_append)

lemma nth_labels_after: "j < length cols \<Longrightarrow> labels_after name cols ! j = cols ! j"
  by (simp add: labels_after_def nth_append)

lemma length_labels_after: "length cols \<le> length (labels_after name cols)"
  by (simp add: labels_after_def)

lemma set_labels_after: "set (labels_after name cols) = insert name (set cols)"
  by (auto simp: labels_after_def)

lemma index_of_labels_after:
  "x \<in> set cols \<Longrightarrow> index_of x (labels_after name cols) = index_of x cols"
  by (simp add: labels_after_def index_of_append)

lemma index_of_nth: "index_of x xs = Some i \<Longrightarrow> xs ! i = x"
  by (induction xs arbitrary: i) (auto split: if_splits)

lemma index_of_last: "x \<notin> set xs \<Longrightarrow> index_of x (xs @ [x]) = Some (length xs)"
  by (induction xs) auto

lemma row_after_named:
  assumes len: "length r = length cols"
    and p: "index_of name (labels_after name cols) = Some p"
  shows "row_after name cols r v ! p = v"
proof (cases "name \<in> set cols")
  case True
  then have "index_of name cols = Some p" using p by (simp add: labels_after_def)
  then have "p < length cols" "cols ! p = name"
    using index_of_SomeD index_of_nth by fastforce+
  then show ?thesis using len by (simp add: nth_row_after)
next
  case False
  then have "p = length cols" using p by (simp add: labels_after_def index_of_last)
  then show ?thesis using False by (simp add: row_after_def len [symmetric])
qed

lemma numeric_row_after:
  assumes v: "is_num v" and r: "\<forall>c\<in>set (drop 3 r). is_num c"
  shows "\<forall>c\<in>set (drop 3 (row_after name cols r v)). is_num c"
proof (cases "name \<in> set cols")
  case True
  have "drop 3 (row_after name cols r v) =
        map (\<lambda>(n, c). if n = name then v else c) (zip (drop 3 cols) (drop 3 r))"
    using True by (simp add: row_after_def drop_map drop_zip)
  then show ?thesis using v r by (auto dest: set_zip_rightD)
next
  case False
  then show ?thesis using v r by (auto simp: row_after_def dest: in_set_dropD)
qed

lemma augmented_table_with_marks:
  assumes rect: "rectangular df" and len: "7 \<le> length (columns df)"
    and num: "numeric_from 3 df"
  shows "augmented_table df = Inr (with_marks df)"
proof -
  let ?T = "\<lambda>r. Num (sum_list (map num_of (drop 3 r)))"
  let ?cols1 = "labels_after ''Total Marks'' (columns df)"
  let ?r1 = "\<lambda>r. row_after ''Total Marks'' (columns df) r (?T r)"
  let ?A = "\<lambda>r1. Num (arith_mean (map num_of (take 4 (drop 3 r1))))"
  have t: "traverse (\<lambda>r. nansum (iloc_from 3 r)) (rows df) = Inr (map ?T (rows df))"
    using num by (intro traverse_map) (simp add: iloc_from_def nansum_nums numeric_from_def)
  let ?df1 = "setitem df ''Total Marks'' (map ?T (rows df))"
  have df1: "?df1 = \<lparr>columns = ?cols1, rows = map ?r1 (rows df)\<rparr>"
    by (rule setitem_rows)
  have a: "traverse (\<lambda>r. nanmean (iloc 3 7 r)) (rows ?df1) = Inr (map ?A (rows ?df1))"
  proof (intro traverse_map)
    fix r' assume "r' \<in> set (rows ?df1)"
    then obtain r where r: "r \<in> set (rows df)" and r': "r' = ?r1 r"
      by (auto simp: df1)
    have lr: "length r = length (columns df)" using rect r by (simp add: rectangular_def)
    have "length r' = length ?cols1" unfolding r' using lr by (rule length_row_after)
    then have l7: "7 \<le> length r'" using len length_labels_after [of "columns df" "''Total Marks''"]
      by simp
    have "\<forall>c\<in>set (drop 3 r). is_num c" using num r by (simp add: numeric_from_def)
    then have "\<forall>c\<in>set (drop 3 r'). is_num c"
      unfolding r' by (intro numeric_row_after) simp_all
    then have "\<forall>c\<in>set (take 4 (drop 3 r')). is_num c"
      by (auto dest: in_set_takeD)
    moreover have "take 4 (drop 3 r') \<noteq> []" using l7 by simp
    ultimately show "nanmean (iloc 3 7 r') = Inr (?A r')"
      by (simp add: iloc_def nanmean_nums)
  qed
  have "setitem ?df1 ''Average Marks'' (map ?A (rows ?df1)) =
         \<lparr>columns = labels_after ''Average Marks'' (columns ?df1),
          rows = map (\<lambda>r. row_after ''Average Marks'' (columns ?df1) r (?A r)) (rows ?df1)\<rparr>"
    by (rule setitem_rows)
  also have "\<dots> = with_marks df"
    by (simp add: df1 with_marks_def marks_row_def Let_def comp_def)
  finally show ?thesis
    by (simp add: augmented_table_def t a Let_def)
qed

lemma marks_row_facts:
  assumes lr: "length r = length cols" and num: "\<forall>c\<in>set (drop 3 r). is_num c"
  shows "length (marks_row cols r) =
           length (labels_after ''Average Marks'' (labels_after ''Total Marks'' cols))"
    and "\<forall>c\<in>set (drop 3 (marks_row cols r)). is_num c"
    and "j < length cols \<Longrightarrow> cols ! j \<noteq> ''Total Marks'' \<Longrightarrow> cols ! j \<noteq> ''Average Marks'' \<Longrightarrow>
           marks_row cols r ! j = r ! j"
proof -
  let ?r1 = "row_after ''Total Marks'' cols r (Num (sum_list (map num_of (drop 3 r))))"
  have l1: "length ?r1 = length (labels_after ''Total Marks'' cols)"
    using lr by (rule length_row_after)
  show "length (marks_row cols r) =
           length (labels_after ''Average Marks'' (labels_after ''Total Marks'' cols))"
    unfolding marks_row_def Let_def using l1 by (rule length_row_after)
  have n1: "\<forall>c\<in>set (drop 3 ?r1). is_num c"
    by (rule numeric_row_after [OF _ num]) simp
  show "\<forall>c\<in>set (drop 3 (marks_row cols r)). is_num c"
    unfolding marks_row_def Let_def by (rule numeric_row_after [OF _ n1]) simp
  assume j: "j < length cols" and nt: "cols ! j \<noteq> ''Total Marks''"
    and na: "cols ! j \<noteq> ''Average Marks''"
  have j1: "j < length (labels_after ''Total Marks'' cols)"
    using j length_labels_after [of cols "''Total Marks''"] by simp
  have "marks_row cols r ! j = ?r1 ! j"
    unfolding marks_row_def Let_def
    using l1 j1 na j by (simp add: nth_row_after nth_labels_after)
  also have "\<dots> = r ! j" using lr j nt by (simp add: nth_row_after)
  finally show "marks_row cols r ! j = r ! j" .
qed

lemma column_nth:
  "rectangular a \<Longrightarrow> j < length (columns a) \<Longrightarrow> column a j = map (\<lambda>r. r ! j) (rows a)"
  by (simp add: column_def rectangular_def cell_at_def)

lemma subject_averages_frame:
  assumes rect: "rectangular a" and len: "7 \<le> length (columns a)"
    and num: "numeric_from 3 a"
  shows "subject_averages a =
     Inr (map (\<lambda>j. (columns a ! j,
                     if rows a = [] then NaN
                     else Num (arith_mean (map (\<lambda>r. num_of (r ! j)) (rows a)))))
            [3, 4, 5, 6])"
  unfolding subject_averages_def iloc_window [OF len]
proof (intro traverse_map)
  fix j :: nat assume "j \<in> set [3, 4, 5, 6]"
  then have j: "3 \<le> j" "j < 7" by auto
  then have jl: "j < length (columns a)" using len by simp
  have col: "column a j = map (\<lambda>r. r ! j) (rows a)"
    using rect jl by (rule column_nth)
  have "\<forall>c\<in>set (map (\<lambda>r. r ! j) (rows a)). is_num c"
    using num rect j jl by (auto simp: rectangular_def intro: numeric_cell)
  then have "nanmean (column a j) =
      Inr (if rows a = [] then NaN else Num (arith_mean (map (\<lambda>r. num_of (r ! j)) (rows a))))"
    by (simp add: col nanmean_nums_or_empty comp_def)
  then show "(case nanmean (column a j) of
           Inl e \<Rightarrow> Inl e
         | Inr m \<Rightarrow> Inr (columns a ! j, m)) =
        Inr (columns a ! j,
             if rows a = [] then NaN
             else Num (arith_mean (map (\<lambda>r. num_of (r ! j)) (rows a))))"
    by simp
qed

lemma class_averages_frame:
  assumes rect: "rectangular a" and len: "7 \<le> length (columns a)"
    and num: "numeric_from 3 a"
    and ci: "index_of ''Class'' (columns a) = Some ci"
  shows "class_averages a =
     Inr (map (\<lambda>k. (k, map (\<lambda>j. Num (arith_mean
                                   (map (\<lambda>r. num_of (r ! j))
                                        (filter (\<lambda>r. r ! ci = k) (rows a)))))
                        [3, 4, 5, 6]))
            (group_keys (map (\<lambda>r. r ! ci) (rows a))))"
proof -
  have cil: "ci < length (columns a)"
    using index_of_SomeD [OF ci] by simp
  have keycol: "column a ci = map (\<lambda>r. r ! ci) (rows a)"
    using rect cil by (rule column_nth)
  have grp: "group_rows a ci k = filter (\<lambda>r. r ! ci = k) (rows a)" for k
    unfolding group_rows_def using rect cil
    by (intro filter_cong) (simp_all add: rectangular_def cell_at_def)
  show ?thesis
    unfolding class_averages_def ci option.case iloc_window [OF len] keycol
  proof (intro traverse_map)
    fix k assume "k \<in> set (group_keys (map (\<lambda>r. r ! ci) (rows a)))"
    then have kin: "k \<in> (\<lambda>r. r ! ci) ` set (rows a)"
      by (auto simp: set_group_keys)
    let ?G = "filter (\<lambda>r. r ! ci = k) (rows a)"
    have ne: "?G \<noteq> []" using kin by (auto simp: filter_empty_conv)
    have "traverse (\<lambda>j. nanmean (map (\<lambda>r. cell_at r j) (group_rows a ci k))) [3, 4, 5, 6] =
          Inr (map (\<lambda>j. Num (arith_mean (map (\<lambda>r. num_of (r ! j)) ?G))) [3, 4, 5, 6])"
    proof (intro traverse_map)
      fix j :: nat assume "j \<in> set [3, 4, 5, 6]"
      then have j: "3 \<le> j" "j < 7" by auto
      then have jl: "j < length (columns a)" using len by simp
      have cells: "map (\<lambda>r. cell_at r j) (group_rows a ci k) = map (\<lambda>r. r ! j) ?G"
        using rect jl by (simp add: grp rectangular_def cell_at_def)
      have "\<forall>c\<in>set (map (\<lambda>r. r ! j) ?G). is_num c"
        using num rect j jl by (auto simp: rectangular_def intro: numeric_cell)
      then show "nanmean (map (\<lambda>r. cell_at r j) (group_rows a ci k)) =
          Inr (Num (arith_mean (map (\<lambda>r. num_of (r ! j)) ?G)))"
        using ne by (simp add: cells nanmean_nums_or_empty comp_def)
    qed
    then show "(case traverse (\<lambda>j. nanmean (map (\<lambda>r. cell_at r j) (group_rows a ci k)))
             [3, 4, 5, 6] of
          Inl e \<Rightarrow> Inl e | Inr ms \<Rightarrow> Inr (k, ms)) =
         Inr (k, map (\<lambda>j. Num (arith_mean (map (\<lambda>r. num_of (r ! j)) ?G))) [3, 4, 5, 6])"
      by simp
  qed
qed

lemma with_marks_frame:
  assumes rect: "rectangular df" and num: "numeric_from 3 df"
  shows "rectangular (with_marks df)" and "numeric_from 3 (with_marks df)"
    and "length (columns df) \<le> length (columns (with_marks df))"
proof -
  have row: "length r = length (columns df)" "\<forall>c\<in>set (drop 3 r). is_num c"
    if "r \<in> set (rows df)" for r
    using that rect num by (simp_all add: rectangular_def numeric_from_def)
  show "rectangular (with_marks df)"
    using marks_row_facts(1) [OF row] by (auto simp: rectangular_def with_marks_def)
  show "numeric_from 3 (with_marks df)"
    using marks_row_facts(2) [OF row] by (auto simp: numeric_from_def with_marks_def)
  show "length (columns df) \<le> length (columns (with_marks df))"
    using length_labels_after [of "columns df" "''Total Marks''"]
      length_labels_after [of "labels_after ''Total Marks'' (columns df)" "''Average Marks''"]
    by (simp add: with_marks_def)
qed

lemma with_marks_labels:
  "j < length (columns df) \<Longrightarrow> columns (with_marks df) ! j = columns df ! j"
  "x \<in> set (columns df) \<Longrightarrow> index_of x (columns (with_marks df)) = index_of x (columns df)"
proof -
  show "j < length (columns df) \<Longrightarrow> columns (with_marks df) ! j = columns df ! j"
    using length_labels_after [of "columns df" "''Total Marks''"]
    by (simp add: with_marks_def nth_labels_after)
  show "x \<in> set (columns df) \<Longrightarrow> index_of x (columns (with_marks df)) = index_of x (columns df)"
    by (simp add: with_marks_def index_of_labels_after set_labels_after)
qed

lemma aggregate_student_table:
  assumes st: "student_table df"
  obtains ci where "index_of ''Class'' (columns df) = Some ci" "ci < length (columns df)"
    "aggregate df =
       Inr (with_marks df,
            map (\<lambda>k. (k, map (\<lambda>j. Num (arith_mean
                                   (map (\<lambda>r. num_of (r ! j))
                                        (filter (\<lambda>r. r ! ci = k) (rows (with_marks df))))))
                        [3, 4, 5, 6]))
              (group_keys (map (\<lambda>r. r ! ci) (rows (with_marks df)))),
            map (\<lambda>j. (columns df ! j,
                     if rows df = [] then NaN
                     else Num (arith_mean (map (\<lambda>r. num_of (r ! j)) (rows (with_marks df))))))
              [3, 4, 5, 6])"
proof -
  from st have rect: "rectangular df" and len: "7 \<le> length (columns df)"
    and cls: "''Class'' \<in> set (columns df)" and num: "numeric_from 3 df"
    by (simp_all add: student_table_def)
  from index_of_Some [OF cls] obtain ci
    where ci: "index_of ''Class'' (columns df) = Some ci" and cil: "ci < length (columns df)"
    by blast
  note fr = with_marks_frame [OF rect num]
  have len': "7 \<le> length (columns (with_marks df))" using len fr(3) by simp
  have ci': "index_of ''Class'' (columns (with_marks df)) = Some ci"
    using cls ci by (simp add: with_marks_labels)
  have emp: "rows (with_marks df) = [] \<longleftrightarrow> rows df = []"
    by (simp add: with_marks_def)
  have sa: "subject_averages (with_marks df) =
      Inr (map (\<lambda>j. (columns df ! j,
                     if rows df = [] then NaN
                     else Num (arith_mean (map (\<lambda>r. num_of (r ! j)) (rows (with_marks df))))))
              [3, 4, 5, 6])"
    using len
    by (simp add: subject_averages_frame [OF fr(1) len' fr(2)] emp with_marks_labels)
  have "aggregate df =
       Inr (with_marks df,
            map (\<lambda>k. (k, map (\<lambda>j. Num (arith_mean
                                   (map (\<lambda>r. num_of (r ! j))
                                        (filter (\<lambda>r. r ! ci = k) (rows (with_marks df))))))
                        [3, 4, 5, 6]))
              (group_keys (map (\<lambda>r. r ! ci) (rows (with_marks df)))),
            map (\<lambda>j. (columns df ! j,
                     if rows df = [] then NaN
                     else Num (arith_mean (map (\<lambda>r. num_of (r ! j)) (rows (with_marks df))))))
              [3, 4, 5, 6])"
    by (simp only: aggregate_def augmented_table_with_marks [OF rect len num]
      class_averages_frame [OF fr(1) len' fr(2) ci'] sa sum.case)
  with ci cil show ?thesis by (rule that)
qed

lemma student_table_marks: "student_table marks_table"
  by (simp add: student_table_def marks_table_shape)

lemma marks_row_key:
  assumes "length r = length cols" "\<forall>c\<in>set (drop 3 r). is_num c"
    and "index_of ''Class'' cols = Some ci"
  shows "marks_row cols r ! ci = r ! ci"
proof -
  have "ci < length cols" "cols ! ci = ''Class''"
    using assms(3) index_of_SomeD index_of_nth by fastforce+
  then show ?thesis
    using assms(1,2) by (intro marks_row_facts(3)) simp_all
qed

lemma window_member:
  assumes "7 \<le> length xs" "j \<in> set [3, 4, 5, 6 :: nat]"
  shows "xs ! j \<in> set (take 4 (drop 3 xs))"
  using assms by (auto simp: window_nth)

lemma length_columns_setitem: "length (columns df) \<le> length (columns (setitem df name vals))"
  by (simp add: setitem_def)

lemma nan_entries:
  "xs \<noteq> [] \<Longrightarrow> \<not> nan_free (map (\<lambda>n. (n, NaN)) xs)"
  by (cases xs) (simp_all add: nan_free_def)

subsection \<open>The claims\<close>

text \<open>
  Claim C1, as amended. For every rectangular table with at least seven columns, numbers
  in every cell from the fourth column on, and no column yet labelled \<open>Total Marks\<close>
  or \<open>Average Marks\<close>, the augmented table is the input, rows in input order, with
  two appended columns: \<open>Total Marks\<close>, the sum of the row's cells from the fourth
  column to the end, and \<open>Average Marks\<close>, the arithmetic mean of the row's cells in
  the fourth to seventh column.
\<close>

theorem augmented_table_appends:
  "rectangular df \<Longrightarrow> 7 \<le> length (columns df) \<Longrightarrow> numeric_from 3 df \<Longrightarrow>
   fresh_labels df \<Longrightarrow> augmented_table df = Inr (with_totals df)"
  by (rule augmented_table_shape)

theorem augmented_table_appends_witness:
  "rectangular marks_table \<and> 7 \<le> length (columns marks_table) \<and>
   numeric_from 3 marks_table \<and> fresh_labels marks_table \<and>
   augmented_table marks_table =
     Inr \<lparr>columns = columns marks_table @ [''Total Marks'', ''Average Marks''],
          rows = [[Str ''Asha'', Num 1, Str ''A'', Num 10, Num 20, Num 30, Num 40, Num 100, Num 25],
                  [Str ''Ravi'', Num 2, Str ''A'', Num 20, Num 20, Num 20, Num 20, Num 80, Num 20],
                  [Str ''Kiran'', Num 3, Str ''B'', Num 0, Num 0, Num 0, Num 0, Num 0, Num 0]]\<rparr>"
proof -
  have len: "7 \<le> length (columns marks_table)" by (simp add: marks_table_shape)
  have "with_totals marks_table =
     \<lparr>columns = columns marks_table @ [''Total Marks'', ''Average Marks''],
          rows = [[Str ''Asha'', Num 1, Str ''A'', Num 10, Num 20, Num 30, Num 40, Num 100, Num 25],
                  [Str ''Ravi'', Num 2, Str ''A'', Num 20, Num 20, Num 20, Num 20, Num 80, Num 20],
                  [Str ''Kiran'', Num 3, Str ''B'', Num 0, Num 0, Num 0, Num 0, Num 0, Num 0]]\<rparr>"
    by (simp add: with_totals_def marks_table_def arith_mean_def)
  with augmented_table_appends [OF marks_table_shape(1) len marks_table_shape(3,4)]
  show ?thesis using len marks_table_shape by simp
qed

text \<open>
  With fewer than seven columns the claim fails as stated for at least four columns: the
  window of the fourth to seventh column is read after \<open>Total Marks\<close> has been
  appended, so on a five-column table the average is taken over the two marks and their
  total.
\<close>

theorem short_table_counterexample:
  "rectangular short_table \<and> 4 \<le> length (columns short_table) \<and>
   numeric_from 3 short_table \<and> fresh_labels short_table \<and>
   augmented_table short_table =
     Inr \<lparr>columns = [''Name'', ''Roll No'', ''Class'', ''Maths'', ''Physics'',
                      ''Total Marks'', ''Average Marks''],
          rows = [[Str ''Asha'', Num 1, Str ''A'', Num 1, Num 2, Num 3, Num 2]]\<rparr> \<and>
   with_totals short_table =
     \<lparr>columns = [''Name'', ''Roll No'', ''Class'', ''Maths'', ''Physics'',
                  ''Total Marks'', ''Average Marks''],
      rows = [[Str ''Asha'', Num 1, Str ''A'', Num 1, Num 2, Num 3, Num (3 / 2)]]\<rparr> \<and>
   augmented_table short_table \<noteq> Inr (with_totals short_table)"
  by (simp add: short_table_def rectangular_def numeric_from_def fresh_labels_def
      augmented_table_def nansum_def nanmean_def iloc_def iloc_from_def setitem_def
      with_totals_def arith_mean_def Let_def)

text \<open>
  Claim C3, as amended. For every student table of the documented shape (rectangular, at
  least seven columns, a column labelled \<open>Class\<close>, numbers in every cell from the
  fourth column on) with at least one row and a class value in every row, the run
  succeeds, and for each of the four columns at positions four to seven the entry of
  \<open>subject_averages\<close> is the mean of that column of \<open>class_averages\<close> weighted by
  the number of rows of each class.
\<close>

theorem class_averages_weighted_mean:
  "student_table df \<Longrightarrow> class_known df \<Longrightarrow> rows df \<noteq> [] \<Longrightarrow>
   \<exists>aug ca sa. aggregate df = Inr (aug, ca, sa) \<and> length sa = 4 \<and>
     (\<forall>km\<in>set ca. length (snd km) = 4) \<and>
     (\<forall>i<4. snd (sa ! i) = Num (weighted_mean (class_weights df ca i)))"
proof -
  assume st: "student_table df" and known: "class_known df" and ne: "rows df \<noteq> []"
  from st have rect: "rectangular df" and num: "numeric_from 3 df"
    by (simp_all add: student_table_def)
  let ?R = "rows (with_marks df)"
  from st obtain ci where ci: "index_of ''Class'' (columns df) = Some ci"
    and cil: "ci < length (columns df)"
    and agg: "aggregate df =
       Inr (with_marks df,
            map (\<lambda>k. (k, map (\<lambda>j. Num (arith_mean
                                   (map (\<lambda>r. num_of (r ! j))
                                        (filter (\<lambda>r. r ! ci = k) ?R))))
                        [3, 4, 5, 6]))
              (group_keys (map (\<lambda>r. r ! ci) ?R)),
            map (\<lambda>j. (columns df ! j,
                     if rows df = [] then NaN
                     else Num (arith_mean (map (\<lambda>r. num_of (r ! j)) ?R))))
              [3, 4, 5, 6])"
    by (rule aggregate_student_table)
  let ?ks = "group_keys (map (\<lambda>r. r ! ci) ?R)"
  let ?G = "\<lambda>k. filter (\<lambda>r. r ! ci = k) ?R"
  let ?ca = "map (\<lambda>k. (k, map (\<lambda>j. Num (arith_mean (map (\<lambda>r. num_of (r ! j)) (?G k))))
                             [3, 4, 5, 6 :: nat])) ?ks"
  let ?sa = "map (\<lambda>j. (columns df ! j,
                     if rows df = [] then NaN
                     else Num (arith_mean (map (\<lambda>r. num_of (r ! j)) ?R))))
              [3, 4, 5, 6 :: nat]"
  have key: "marks_row (columns df) r ! ci = r ! ci" if "r \<in> set (rows df)" for r
    using that rect num ci
    by (intro marks_row_key) (simp_all add: rectangular_def numeric_from_def)
  have size: "group_size df k = length (?G k)" for k
  proof -
    have "filter (\<lambda>r. marks_row (columns df) r ! ci = k) (rows df) =
          filter (\<lambda>r. r ! ci = k) (rows df)"
      by (intro filter_cong) (simp_all add: key)
    then show ?thesis
      by (simp add: group_size_nth [OF rect ci] with_marks_def filter_map comp_def)
  qed
  have d: "distinct ?ks" by (rule distinct_group_keys)
  have "r ! ci \<noteq> NaN" if "r \<in> set (rows df)" for r
    using known that rect cil
    by (auto simp: class_known_def ci list_all_iff cell_at_def rectangular_def)
  then have "r' ! ci \<noteq> NaN" if "r' \<in> set ?R" for r'
    using that key by (auto simp: with_marks_def)
  then have cover: "(\<lambda>r. r ! ci) ` set ?R \<subseteq> set ?ks"
    by (auto simp: set_group_keys)
  have "snd (?sa ! i) = Num (weighted_mean (class_weights df ?ca i))" if i: "i < 4" for i
  proof -
    define j where "j = 3 + i"
    from i have cases_i: "i = 0 \<or> i = 1 \<or> i = 2 \<or> i = 3" by linarith
    let ?f = "\<lambda>r. num_of (r ! j)"
    have eq: "class_weights df ?ca i =
          map (\<lambda>k. (of_nat (length (?G k)), arith_mean (map ?f (?G k)))) ?ks"
      using cases_i by (auto simp: class_weights_def comp_def size j_def)
    have "weighted_mean (class_weights df ?ca i) = arith_mean (map ?f ?R)"
      unfolding eq by (rule weighted_group_means [OF d cover])
    moreover have "snd (?sa ! i) = Num (arith_mean (map ?f ?R))"
      using cases_i ne by (auto simp: j_def)
    ultimately show ?thesis by simp
  qed
  moreover have "length ?sa = 4" by simp
  moreover have "\<forall>km\<in>set ?ca. length (snd km) = 4" by auto
  ultimately show ?thesis using agg by blast
qed

theorem class_averages_weighted_mean_witness:
  "student_table marks_table \<and> class_known marks_table \<and> rows marks_table \<noteq> [] \<and>
   (\<exists>aug ca sa. aggregate marks_table = Inr (aug, ca, sa) \<and> length sa = 4 \<and>
     (\<forall>km\<in>set ca. length (snd km) = 4) \<and>
     (\<forall>i<4. snd (sa ! i) = Num (weighted_mean (class_weights marks_table ca i))))"
proof -
  have known: "class_known marks_table"
    by (simp add: class_known_def marks_table_def cell_at_def)
  have ne: "rows marks_table \<noteq> []" by (simp add: marks_table_def)
  from class_averages_weighted_mean [OF student_table_marks known ne] student_table_marks known ne
  show ?thesis by blast
qed

text \<open>
  The claim as stated fails when a row has no class value: \<open>groupby\<close> drops that row
  while the subject averages keep it. With marks 20 in class A and marks 10 in a row
  without class, the only class average is 20, its weighted mean is 20, and the subject
  average is 15.
\<close>

theorem blank_class_counterexample:
  "student_table blank_class_table \<and> rows blank_class_table \<noteq> [] \<and>
   aggregate blank_class_table =
     Inr (blank_class_marks,
          [(Str ''A'', [Num 20, Num 20, Num 20, Num 20])],
          [(''Maths'', Num 15), (''Physics'', Num 15), (''Chemistry'', Num 15),
           (''English'', Num 15)]) \<and>
   weighted_mean (class_weights blank_class_table
                    [(Str ''A'', [Num 20, Num 20, Num 20, Num 20])] 0) = 20 \<and>
   Num 15 \<noteq> Num (20 :: rat)"
proof -
  have "student_table blank_class_table"
    by (simp add: student_table_def blank_class_table_def rectangular_def numeric_from_def)
  moreover have "rows blank_class_table \<noteq> []" by (simp add: blank_class_table_def)
  moreover have "aggregate blank_class_table =
     Inr (blank_class_marks,
          [(Str ''A'', [Num 20, Num 20, Num 20, Num 20])],
          [(''Maths'', Num 15), (''Physics'', Num 15), (''Chemistry'', Num 15),
           (''English'', Num 15)])"
    by code_simp
  moreover have "weighted_mean (class_weights blank_class_table
                    [(Str ''A'', [Num 20, Num 20, Num 20, Num 20])] 0) = 20"
    by code_simp
  ultimately show ?thesis by simp
qed

text \<open>
  Claim C5, as amended. On a table without rows that has a \<open>Class\<close> column the run
  raises nothing, the augmented table has no rows and \<open>class_averages\<close> is empty;
  \<open>subject_averages\<close> has one entry for each of the fourth to seventh column of the
  augmented table, under that column's label, and each entry is \<open>NaN\<close>. When the
  input has at least four columns, \<open>subject_averages\<close> is therefore neither empty
  nor free of \<open>NaN\<close>; when it has at least seven, it has exactly four entries.
\<close>

theorem aggregate_empty_table:
  "rows df = [] \<Longrightarrow> ''Class'' \<in> set (columns df) \<Longrightarrow>
   \<exists>aug sa. aggregate df = Inr (aug, [], sa) \<and> rows aug = [] \<and>
     sa = map (\<lambda>n. (n, NaN)) (take 4 (drop 3 (columns aug))) \<and>
     (4 \<le> length (columns df) \<longrightarrow> sa \<noteq> [] \<and> \<not> nan_free sa) \<and>
     (7 \<le> length (columns df) \<longrightarrow> length sa = 4)"
proof -
  assume empty: "rows df = []" and cls: "''Class'' \<in> set (columns df)"
  let ?aug = "setitem (setitem df ''Total Marks'' []) ''Average Marks'' []"
  let ?sa = "map (\<lambda>n. (n, NaN)) (take 4 (drop 3 (columns ?aug)))"
  have aug: "augmented_table df = Inr ?aug"
    by (simp add: augmented_table_def empty setitem_def Let_def)
  have rows: "rows ?aug = []"
    by (simp add: setitem_def empty)
  have "''Class'' \<in> set (columns ?aug)"
    using cls by (simp add: setitem_def)
  then have "class_averages ?aug = Inr []"
    using rows by (intro class_averages_no_rows)
  then have agg: "aggregate df = Inr (?aug, [], ?sa)"
    by (simp add: aggregate_def aug subject_averages_no_rows [OF rows])
  have len: "length (columns df) \<le> length (columns ?aug)"
    using length_columns_setitem [of df "''Total Marks''" "[]"]
      length_columns_setitem [of "setitem df ''Total Marks'' []" "''Average Marks''" "[]"]
    by simp
  have four: "?sa \<noteq> [] \<and> \<not> nan_free ?sa" if "4 \<le> length (columns df)"
  proof -
    have "take 4 (drop 3 (columns ?aug)) \<noteq> []" using that len by simp
    then show ?thesis using nan_entries by simp
  qed
  have seven: "length ?sa = 4" if "7 \<le> length (columns df)"
    using that len by simp
  from agg rows four seven show ?thesis by blast
qed

theorem aggregate_empty_table_witness:
  "rows empty_marks = [] \<and> ''Class'' \<in> set (columns empty_marks) \<and>
   7 \<le> length (columns empty_marks) \<and>
   (\<exists>aug sa. aggregate empty_marks = Inr (aug, [], sa) \<and> rows aug = [] \<and>
     sa = map (\<lambda>n. (n, NaN)) (take 4 (drop 3 (columns aug))) \<and>
     sa \<noteq> [] \<and> \<not> nan_free sa \<and> length sa = 4)"
proof -
  have e: "rows empty_marks = []" and c: "''Class'' \<in> set (columns empty_marks)"
    and l: "7 \<le> length (columns empty_marks)"
    by (simp_all add: empty_marks_def marks_table_def)
  then have l4: "4 \<le> length (columns empty_marks)" by simp
  from aggregate_empty_table [OF e c] e c l l4 show ?thesis by blast
qed

text \<open>
  The claim as stated fails on the documented seven-column shape without rows:
  \<open>subject_averages\<close> is not empty and holds \<open>NaN\<close>.
\<close>

theorem empty_marks_counterexample:
  "rows empty_marks = [] \<and>
   aggregate empty_marks =
     Inr (\<lparr>columns = columns marks_totals, rows = []\<rparr>, [], nan_averages) \<and>
   nan_averages \<noteq> [] \<and> \<not> nan_free nan_averages"
proof -
  have "aggregate empty_marks =
     Inr (\<lparr>columns = columns marks_totals, rows = []\<rparr>, [], nan_averages)"
    by code_simp
  moreover have "rows empty_marks = []" by (simp add: empty_marks_def)
  moreover have "nan_averages \<noteq> []" "\<not> nan_free nan_averages"
    by (simp_all add: nan_averages_def nan_free_def)
  ultimately show ?thesis by blast
qed

text \<open>
  Claim C8, as amended. For every student table of the documented shape in which none of
  the fourth to seventh column is already labelled \<open>Total Marks\<close> or
  \<open>Average Marks\<close>, the run succeeds and \<open>subject_averages\<close> has one entry per
  column of the fourth to seventh position, labelled and ordered as in the input; when
  the table has at least one row, each entry is the arithmetic mean of its column over
  all rows; when it has a single row, the entries are that row's four marks.
\<close>

theorem subject_averages_are_column_means:
  "student_table df \<Longrightarrow> subject_labels_kept df \<Longrightarrow>
   \<exists>aug ca sa. aggregate df = Inr (aug, ca, sa) \<and>
     map fst sa = take 4 (drop 3 (columns df)) \<and>
     (rows df \<noteq> [] \<longrightarrow> map snd sa = map (\<lambda>j. Num (column_mean df j)) [3, 4, 5, 6]) \<and>
     (\<forall>r. rows df = [r] \<longrightarrow> map snd sa = take 4 (drop 3 r))"
proof -
  assume st: "student_table df" and kept: "subject_labels_kept df"
  then have rect: "rectangular df" and len: "7 \<le> length (columns df)"
    and num: "numeric_from 3 df"
    by (simp_all add: student_table_def)
  let ?R = "rows (with_marks df)"
  from st obtain ci ca where agg: "aggregate df =
       Inr (with_marks df, ca,
            map (\<lambda>j. (columns df ! j,
                     if rows df = [] then NaN
                     else Num (arith_mean (map (\<lambda>r. num_of (r ! j)) ?R))))
              [3, 4, 5, 6])"
    by (rule aggregate_student_table)
  have same: "map (\<lambda>r. num_of (r ! j)) ?R = map (\<lambda>r. num_of (r ! j)) (rows df)"
    if j: "j \<in> set [3, 4, 5, 6]" for j
  proof -
    have jl: "j < length (columns df)" using j len by auto
    have "columns df ! j \<in> set (take 4 (drop 3 (columns df)))"
      using len j by (rule window_member)
    then have lab: "columns df ! j \<noteq> ''Total Marks''" "columns df ! j \<noteq> ''Average Marks''"
      using kept by (auto simp: subject_labels_kept_def)
    have "marks_row (columns df) r ! j = r ! j" if "r \<in> set (rows df)" for r
      using that rect num jl lab
      by (intro marks_row_facts(3)) (simp_all add: rectangular_def numeric_from_def)
    then show ?thesis by (simp add: with_marks_def comp_def)
  qed
  let ?sa = "map (\<lambda>j. (columns df ! j,
                     if rows df = [] then NaN
                     else Num (arith_mean (map (\<lambda>r. num_of (r ! j)) (rows df)))))
              [3, 4, 5, 6 :: nat]"
  have agg': "aggregate df = Inr (with_marks df, ca, ?sa)"
    unfolding agg using same by simp
  have labels: "map fst ?sa = take 4 (drop 3 (columns df))"
    by (simp add: window_nth [OF len])
  have cm: "column_mean df j = arith_mean (map (\<lambda>r. num_of (r ! j)) (rows df))"
    if "j \<in> set [3, 4, 5, 6]" for j
    using that len by (intro column_mean_nth [OF rect]) auto
  have means: "map snd ?sa = map (\<lambda>j. Num (column_mean df j)) [3, 4, 5, 6]" if "rows df \<noteq> []"
    using that cm by simp
  have single: "map snd ?sa = take 4 (drop 3 r)" if r: "rows df = [r]" for r
  proof -
    have lr: "7 \<le> length r" using rect len r by (simp add: rectangular_def)
    have "Num (num_of (r ! j)) = r ! j" if "j \<in> set [3, 4, 5, 6]" for j
    proof -
      from that lr have "3 \<le> j" "j < length r" by auto
      with num r have "is_num (r ! j)" by (intro numeric_cell [of df]) simp_all
      then show ?thesis by (cases "r ! j") simp_all
    qed
    then show ?thesis
      using r by (simp add: window_nth [OF lr] arith_mean_def)
  qed
  from agg' labels means single show ?thesis by blast
qed

theorem subject_averages_are_column_means_witness:
  "student_table marks_table \<and> subject_labels_kept marks_table \<and>
   (\<exists>aug ca sa. aggregate marks_table = Inr (aug, ca, sa) \<and>
     map fst sa = [''Maths'', ''Physics'', ''Chemistry'', ''English''] \<and>
     map snd sa = [Num 10, Num (40 / 3), Num (50 / 3), Num 20])"
proof -
  have kept: "subject_labels_kept marks_table"
    by (simp add: subject_labels_kept_def marks_table_def)
  have ne: "rows marks_table \<noteq> []" by (simp add: marks_table_def)
  have l: "take 4 (drop 3 (columns marks_table)) = [''Maths'', ''Physics'', ''Chemistry'', ''English'']"
    by (simp add: marks_table_def)
  have m: "map (\<lambda>j. Num (column_mean marks_table j)) [3, 4, 5, 6] =
      [Num 10, Num (40 / 3), Num (50 / 3), Num 20]"
    by (simp add: column_mean_def marks_table_def cell_at_def arith_mean_def)
  from subject_averages_are_column_means [OF student_table_marks kept] ne l m
  show ?thesis using student_table_marks kept by metis
qed

text \<open>
  The claim as stated fails in two ways. On a single-row table whose seventh column is
  labelled \<open>Total Marks\<close>, line 15 overwrites that column with the total 120 before
  line 22 reads it, so the subject averages are 10, 20, 30, 120 while the row holds 10,
  20, 30, 60. On a student table without rows every entry is \<open>NaN\<close>, which is not a
  number.
\<close>

theorem labelled_total_averages_counterexample:
  "student_table labelled_total_table \<and>
   rows labelled_total_table = [[Str ''Asha'', Num 1, Str ''A'', Num 10, Num 20, Num 30, Num 60]] \<and>
   aggregate labelled_total_table =
     Inr (labelled_total_marks,
          [(Str ''A'', [Num 10, Num 20, Num 30, Num 120])],
          [(''Maths'', Num 10), (''Physics'', Num 20), (''Chemistry'', Num 30),
           (''Total Marks'', Num 120)]) \<and>
   take 4 (drop 3 [Str ''Asha'', Num 1, Str ''A'', Num 10, Num 20, Num 30, Num 60]) =
     [Num 10, Num 20, Num 30, Num 60] \<and>
   student_table empty_marks \<and>
   aggregate empty_marks =
     Inr (\<lparr>columns = columns marks_totals, rows = []\<rparr>, [], nan_averages) \<and>
   \<not> is_num (snd (nan_averages ! 0))"
proof -
  have "student_table labelled_total_table"
    by (simp add: student_table_def labelled_total_table_def rectangular_def numeric_from_def)
  moreover have "rows labelled_total_table =
      [[Str ''Asha'', Num 1, Str ''A'', Num 10, Num 20, Num 30, Num 60]]"
    by (simp add: labelled_total_table_def)
  moreover have "aggregate labelled_total_table =
     Inr (labelled_total_marks,
          [(Str ''A'', [Num 10, Num 20, Num 30, Num 120])],
          [(''Maths'', Num 10), (''Physics'', Num 20), (''Chemistry'', Num 30),
           (''Total Marks'', Num 120)])"
    by code_simp
  moreover have "student_table empty_marks"
    by (simp add: student_table_def empty_marks_def marks_table_def rectangular_def
        numeric_from_def)
  moreover have "aggregate empty_marks =
     Inr (\<lparr>columns = columns marks_totals, rows = []\<rparr>, [], nan_averages)"
    by code_simp
  moreover have "\<not> is_num (snd (nan_averages ! 0))"
    by (simp add: nan_averages_def)
  ultimately show ?thesis by simp
qed

text \<open>
  Claim C9. On the three-row table with marks 10, 20, 30, 40 and 20, 20, 20, 20 in class A
  and 0, 0, 0, 0 in class B, the totals are 100, 80, 0, the averages 25, 20, 0, the class
  averages 15, 20, 25, 30 for A and 0, 0, 0, 0 for B, and the subject averages 10, 40/3,
  50/3, 20, which are 10, 13.33, 16.67, 20 to two decimals.
\<close>

theorem dashboard_scenario:
  "\<exists>aug ca sa. aggregate marks_table = Inr (aug, ca, sa) \<and>
     columns aug ! 7 = ''Total Marks'' \<and> column aug 7 = [Num 100, Num 80, Num 0] \<and>
     columns aug ! 8 = ''Average Marks'' \<and> column aug 8 = [Num 25, Num 20, Num 0] \<and>
     ca = [(Str ''A'', [Num 15, Num 20, Num 25, Num 30]),
           (Str ''B'', [Num 0, Num 0, Num 0, Num 0])] \<and>
     map snd sa = [Num 10, Num (40 / 3), Num (50 / 3), Num 20] \<and>
     map (\<lambda>(n, c). round2 (num_of c)) sa = [10, 1333 / 100, 1667 / 100, 20]"
proof -
  let ?ca = "[(Str ''A'', [Num 15, Num 20, Num 25, Num 30]),
              (Str ''B'', [Num 0, Num 0, Num 0, Num 0])]"
  let ?sa = "[(''Maths'', Num 10), (''Physics'', Num (40 / 3)),
              (''Chemistry'', Num (50 / 3)), (''English'', Num 20)]"
  have a: "aggregate marks_table = Inr (marks_totals, ?ca, ?sa)"
    by code_simp
  have b: "columns marks_totals ! 7 = ''Total Marks''"
    "columns marks_totals ! 8 = ''Average Marks''"
    "column marks_totals 7 = [Num 100, Num 80, Num 0]"
    "column marks_totals 8 = [Num 25, Num 20, Num 0]"
    by (simp_all add: marks_totals_def column_def cell_at_def)
  have c: "map snd ?sa = [Num 10, Num (40 / 3), Num (50 / 3), Num 20]"
    by simp
  have d: "map (\<lambda>(n, c). round2 (num_of c)) ?sa = [10, 1333 / 100, 1667 / 100, 20]"
    by code_simp
  show ?thesis
    by (rule exI [of _ marks_totals], rule exI [of _ ?ca], rule exI [of _ ?sa])
       (intro conjI a b c d refl)
qed

text \<open>
  Claim C10, as amended. For every rectangular table of exactly seven columns with numbers
  in the fourth to seventh column, none of these four labelled \<open>Total Marks\<close>, the
  augmented table has a column of each of the two labels, and in every row the cell under
  \<open>Average Marks\<close> is the cell under \<open>Total Marks\<close> divided by four.
\<close>

theorem average_is_quarter_total:
  "rectangular df \<Longrightarrow> length (columns df) = 7 \<Longrightarrow> numeric_from 3 df \<Longrightarrow>
   ''Total Marks'' \<notin> set (drop 3 (columns df)) \<Longrightarrow>
   \<exists>aug. augmented_table df = Inr aug \<and>
     ''Total Marks'' \<in> set (columns aug) \<and> ''Average Marks'' \<in> set (columns aug) \<and>
     (\<forall>r\<in>set (rows aug). \<exists>t. cell_named aug ''Total Marks'' r = Num t \<and>
                                cell_named aug ''Average Marks'' r = Num (t / 4))"
proof -
  assume rect: "rectangular df" and len: "length (columns df) = 7"
    and num: "numeric_from 3 df" and nt: "''Total Marks'' \<notin> set (drop 3 (columns df))"
  let ?cols = "columns df"
  let ?cols1 = "labels_after ''Total Marks'' ?cols"
  let ?cols2 = "labels_after ''Average Marks'' ?cols1"
  have aug: "augmented_table df = Inr (with_marks df)"
    using rect len num by (intro augmented_table_with_marks) simp_all
  have c2: "columns (with_marks df) = ?cols2" by (simp add: with_marks_def)
  have tin: "''Total Marks'' \<in> set ?cols1" and ain: "''Average Marks'' \<in> set ?cols2"
    by (simp_all add: set_labels_after)
  then have tin2: "''Total Marks'' \<in> set ?cols2" by (simp add: set_labels_after)
  from index_of_Some [OF tin] obtain p where p: "index_of ''Total Marks'' ?cols1 = Some p"
    and pl: "p < length ?cols1" by blast
  have p2: "index_of ''Total Marks'' ?cols2 = Some p"
    using tin p by (simp add: index_of_labels_after)
  from index_of_Some [OF ain] obtain q where q: "index_of ''Average Marks'' ?cols2 = Some q"
    and ql: "q < length ?cols2" by blast
  have pl2: "p < length ?cols2"
    using pl length_labels_after [of ?cols1 "''Average Marks''"] by simp
  have "\<exists>t. cell_named (with_marks df) ''Total Marks'' r' = Num t \<and>
            cell_named (with_marks df) ''Average Marks'' r' = Num (t / 4)"
    if "r' \<in> set (rows (with_marks df))" for r'
  proof -
    from that obtain r where r: "r \<in> set (rows df)" and r': "r' = marks_row ?cols r"
      by (auto simp: with_marks_def)
    have lr: "length r = length ?cols" using rect r by (simp add: rectangular_def)
    have nr: "\<forall>c\<in>set (drop 3 r). is_num c" using num r by (simp add: numeric_from_def)
    define t where "t = sum_list (map num_of (drop 3 r))"
    let ?r1 = "row_after ''Total Marks'' ?cols r (Num t)"
    have l1: "length ?r1 = length ?cols1" using lr by (rule length_row_after)
    have l7: "7 \<le> length ?r1" "7 \<le> length r"
      using l1 lr len length_labels_after [of ?cols "''Total Marks''"] by simp_all
    have "?r1 ! j = r ! j" if "j \<in> set [3, 4, 5, 6]" for j
    proof -
      have jl: "j < length ?cols" "3 \<le> j" using that len by auto
      then have "drop 3 ?cols ! (j - 3) = ?cols ! j" by simp
      moreover have "drop 3 ?cols ! (j - 3) \<in> set (drop 3 ?cols)"
        using jl by (intro nth_mem) simp
      ultimately have "?cols ! j \<noteq> ''Total Marks''" using nt by metis
      then show ?thesis using lr jl by (simp add: nth_row_after)
    qed
    then have "take 4 (drop 3 ?r1) = take 4 (drop 3 r)"
      by (simp add: window_nth [OF l7(1)] window_nth [OF l7(2)])
    also have "\<dots> = drop 3 r" using lr len by simp
    finally have avg: "arith_mean (map num_of (take 4 (drop 3 ?r1))) = t / 4"
      using lr len by (simp add: arith_mean_def t_def)
    have r2: "r' = row_after ''Average Marks'' ?cols1 ?r1 (Num (t / 4))"
      unfolding r' marks_row_def Let_def t_def [symmetric] avg by (rule refl)
    have lr': "length r' = length ?cols2"
      unfolding r2 using l1 by (rule length_row_after)
    have "r' ! q = Num (t / 4)"
      unfolding r2 using l1 q by (rule row_after_named)
    then have A: "cell_named (with_marks df) ''Average Marks'' r' = Num (t / 4)"
      using ql lr' by (simp add: cell_named_def c2 q cell_at_def)
    have "?cols1 ! p = ''Total Marks''" using p by (rule index_of_nth)
    then have "r' ! p = ?r1 ! p"
      unfolding r2 using l1 pl by (simp add: nth_row_after)
    also have "\<dots> = Num t" using lr p by (rule row_after_named)
    finally have T: "cell_named (with_marks df) ''Total Marks'' r' = Num t"
      using pl2 lr' by (simp add: cell_named_def c2 p2 cell_at_def)
    from T A show ?thesis by blast
  qed
  with aug tin2 ain c2 show ?thesis by metis
qed

theorem average_is_quarter_total_witness:
  "rectangular marks_table \<and> length (columns marks_table) = 7 \<and>
   numeric_from 3 marks_table \<and> ''Total Marks'' \<notin> set (drop 3 (columns marks_table)) \<and>
   (\<exists>aug. augmented_table marks_table = Inr aug \<and>
     ''Total Marks'' \<in> set (columns aug) \<and> ''Average Marks'' \<in> set (columns aug) \<and>
     (\<forall>r\<in>set (rows aug). \<exists>t. cell_named aug ''Total Marks'' r = Num t \<and>
                                cell_named aug ''Average Marks'' r = Num (t / 4)))"
proof -
  have nt: "''Total Marks'' \<notin> set (drop 3 (columns marks_table))"
    by (simp add: marks_table_def)
  from average_is_quarter_total [OF marks_table_shape(1-3) nt] marks_table_shape(1-3) nt
  show ?thesis by blast
qed

text \<open>
  The claim as stated fails on a seven-column table whose seventh column is labelled
  \<open>Total Marks\<close>: the total 120 overwrites the mark 60 before the average is taken,
  so the average is 45 and not 120 / 4.
\<close>

theorem labelled_total_counterexample:
  "rectangular labelled_total_table \<and> length (columns labelled_total_table) = 7 \<and>
   numeric_from 3 labelled_total_table \<and>
   augmented_table labelled_total_table = Inr labelled_total_marks \<and>
   rows labelled_total_marks =
     [[Str ''Asha'', Num 1, Str ''A'', Num 10, Num 20, Num 30, Num 120, Num 45]] \<and>
   cell_named labelled_total_marks ''Total Marks''
     [Str ''Asha'', Num 1, Str ''A'', Num 10, Num 20, Num 30, Num 120, Num 45] = Num 120 \<and>
   cell_named labelled_total_marks ''Average Marks''
     [Str ''Asha'', Num 1, Str ''A'', Num 10, Num 20, Num 30, Num 120, Num 45] = Num 45 \<and>
   (120 :: rat) / 4 \<noteq> 45"
proof -
  have "augmented_table labelled_total_table = Inr labelled_total_marks"
    by code_simp
  moreover have "rectangular labelled_total_table" "length (columns labelled_total_table) = 7"
    "numeric_from 3 labelled_total_table"
    by (simp_all add: labelled_total_table_def rectangular_def numeric_from_def)
  moreover have "rows labelled_total_marks =
     [[Str ''Asha'', Num 1, Str ''A'', Num 10, Num 20, Num 30, Num 120, Num 45]]"
    by (simp add: labelled_total_marks_def)
  moreover have "cell_named labelled_total_marks ''Total Marks''
     [Str ''Asha'', Num 1, Str ''A'', Num 10, Num 20, Num 30, Num 120, Num 45] = Num 120"
    "cell_named labelled_total_marks ''Average Marks''
     [Str ''Asha'', Num 1, Str ''A'', Num 10, Num 20, Num 30, Num 120, Num 45] = Num 45"
    by (simp_all add: cell_named_def labelled_total_marks_def cell_at_def)
  ultimately show ?thesis by simp
qed

end
